theory Spec2Isabelle
  imports Main
begin

section \<open>Weave: one request to a text-generation service and its structured reply\<close>

text \<open>
  The program is a single Streamlit script, \<^verbatim>\<open>Weave.py\<close>. It reads a credential, a block of
  markup and an output format from three widgets, and, on a button press, checks the three
  inputs, calls \<^verbatim>\<open>transform_html\<close> and renders what it returns. \<^verbatim>\<open>transform_html\<close> builds
  one request, sends it to the generation service, and validates the text of the reply
  against the class \<^verbatim>\<open>ResponseSchema\<close>.

  Text is modelled as \<^typ>\<open>string\<close>: the bytes of the UTF-8 encoding of the Python string.
  The effects of the script (notices on the page, the construction of a client, the call of
  the service) are collected in a trace, in the order in which the script performs them. The
  service itself is a parameter of the model.
\<close>

subsection \<open>Strings\<close>

text \<open>
  \<^verbatim>\<open>str.lower()\<close> on the ASCII letters; other bytes are left alone. The formats the page
  offers are ASCII words.
\<close>

definition lower_char :: "char \<Rightarrow> char" where
  "lower_char c =
     (let n = (of_char c :: nat) in if 65 \<le> n \<and> n \<le> 90 then char_of (n + 32) else c)"

definition lower :: "string \<Rightarrow> string" where
  "lower s = map lower_char s"

subsection \<open>JSON text\<close>

text \<open>
  \<^verbatim>\<open>ResponseSchema.model_validate_json\<close> is a library call: it decodes its argument as one
  JSON text and validates the decoded value against the fields the class declares. The
  decoder below reads the grammar of RFC 8259: a lexer from bytes to tokens, and a pushdown
  parser from tokens to a value. A number keeps its lexeme; as the library does, the lexer
  also takes \<^verbatim>\<open>NaN\<close>, \<^verbatim>\<open>Infinity\<close> and \<^verbatim>\<open>-Infinity\<close> for numbers. A \<^verbatim>\<open>\u\<close> escape stands for
  the UTF-8 bytes of its code point, a surrogate pair for the code point it encodes.
\<close>

datatype json =
    JNull
  | JBool bool
  | JNumber string
  | JString string
  | JArray "json list"
  | JObject "(string \<times> json) list"

datatype token =
    LBrace | RBrace | LBracket | RBracket | Colon | Comma
  | TString string | TNumber string | TTrue | TFalse | TNull

definition is_ws :: "char \<Rightarrow> bool" where
  "is_ws c \<longleftrightarrow> c = CHR '' '' \<or> c = CHR 0x09 \<or> c = CHR 0x0A \<or> c = CHR 0x0D"

definition is_digit :: "char \<Rightarrow> bool" where
  "is_digit c \<longleftrightarrow> (let n = (of_char c :: nat) in 48 \<le> n \<and> n \<le> 57)"

definition hex_val :: "char \<Rightarrow> nat option" where
  "hex_val c =
     (let n = (of_char c :: nat) in
      if 48 \<le> n \<and> n \<le> 57 then Some (n - 48)
      else if 65 \<le> n \<and> n \<le> 70 then Some (n - 55)
      else if 97 \<le> n \<and> n \<le> 102 then Some (n - 87)
      else None)"

fun hex4 :: "string \<Rightarrow> (nat \<times> string) option" where
  "hex4 (a # b # c # d # rest) =
     (case (hex_val a, hex_val b, hex_val c, hex_val d) of
        (Some w, Some x, Some y, Some z) \<Rightarrow> Some (((w * 16 + x) * 16 + y) * 16 + z, rest)
      | _ \<Rightarrow> None)"
| "hex4 _ = None"

definition utf8_encode :: "nat \<Rightarrow> string" where
  "utf8_encode n =
     (if n < 0x80 then [char_of n]
      else if n < 0x800 then [char_of (0xC0 + n div 64), char_of (0x80 + n mod 64)]
      else if n < 0x10000 then
        [char_of (0xE0 + n div 4096), char_of (0x80 + (n div 64) mod 64),
         char_of (0x80 + n mod 64)]
      else
        [char_of (0xF0 + n div 262144), char_of (0x80 + (n div 4096) mod 64),
         char_of (0x80 + (n div 64) mod 64), char_of (0x80 + n mod 64)])"

text \<open>The text after \<^verbatim>\<open>\u\<close>: four hex digits, and a second escape after a high surrogate.\<close>

definition unicode_escape :: "string \<Rightarrow> (string \<times> string) option" where
  "unicode_escape cs =
     (case hex4 cs of
        None \<Rightarrow> None
      | Some (hi, r) \<Rightarrow>
          if 0xD800 \<le> hi \<and> hi < 0xDC00 then
            (if take 2 r = [CHR 0x5C, CHR ''u''] then
               (case hex4 (drop 2 r) of
                  None \<Rightarrow> None
                | Some (lo, r') \<Rightarrow>
                    if 0xDC00 \<le> lo \<and> lo < 0xE000
                    then Some (utf8_encode (0x10000 + (hi - 0xD800) * 1024 + (lo - 0xDC00)), r')
                    else None)
             else None)
          else if 0xDC00 \<le> hi \<and> hi < 0xE000 then None
          else Some (utf8_encode hi, r))"

definition simple_escape :: "char \<Rightarrow> char option" where
  "simple_escape e =
     (if e = CHR 0x22 then Some (CHR 0x22)
      else if e = CHR 0x5C then Some (CHR 0x5C)
      else if e = CHR ''/'' then Some (CHR ''/'')
      else if e = CHR ''b'' then Some (CHR 0x08)
      else if e = CHR ''f'' then Some (CHR 0x0C)
      else if e = CHR ''n'' then Some (CHR 0x0A)
      else if e = CHR ''r'' then Some (CHR 0x0D)
      else if e = CHR ''t'' then Some (CHR 0x09)
      else None)"

lemma hex4_length: "hex4 cs = Some (n, r) \<Longrightarrow> length r < length cs"
  by (induction cs rule: hex4.induct) (auto split: option.splits)

lemma unicode_escape_length: "unicode_escape cs = Some (b, r) \<Longrightarrow> length r < length cs"
  by (auto simp: unicode_escape_def split: option.splits if_splits dest!: hex4_length)

text \<open>
  The body of a string, after its opening quote: the decoded bytes and the text after the
  closing quote. A control character (below \<^verbatim>\<open>0x20\<close>) may not stand unescaped.
\<close>

function lex_string :: "string \<Rightarrow> (string \<times> string) option" where
  "lex_string [] = None"
| "lex_string (c # cs) =
     (if c = CHR 0x22 then Some ([], cs)
      else if c = CHR 0x5C then
        (case cs of
           [] \<Rightarrow> None
         | e # cs' \<Rightarrow>
             if e = CHR ''u'' then
               (case unicode_escape cs' of
                  None \<Rightarrow> None
                | Some (b, cs'') \<Rightarrow> map_option (\<lambda>(s, r). (b @ s, r)) (lex_string cs''))
             else
               (case simple_escape e of
                  None \<Rightarrow> None
                | Some d \<Rightarrow> map_option (\<lambda>(s, r). (d # s, r)) (lex_string cs')))
      else if (of_char c :: nat) < 0x20 then None
      else map_option (\<lambda>(s, r). (c # s, r)) (lex_string cs))"
  by pat_completeness auto
termination
  by (relation "measure length") (auto dest: unicode_escape_length)

lemma lex_string_length: "lex_string cs = Some (s, r) \<Longrightarrow> length r < length cs"
proof (induction cs arbitrary: s r rule: lex_string.induct)
  case 1
  then show ?case by simp
next
  case (2 c cs)
  then show ?case
    by (fastforce split: if_splits list.splits option.splits dest: unicode_escape_length)
qed

text \<open>
  A number: an optional minus, an integer part without a leading zero, an optional
  fraction, an optional exponent.
\<close>

definition is_number_char :: "char \<Rightarrow> bool" where
  "is_number_char c \<longleftrightarrow>
     is_digit c \<or> c = CHR ''-'' \<or> c = CHR ''+'' \<or> c = CHR ''.'' \<or> c = CHR ''e'' \<or> c = CHR ''E''"

definition valid_exponent :: "string \<Rightarrow> bool" where
  "valid_exponent r =
     (case r of
        [] \<Rightarrow> True
      | e # r' \<Rightarrow>
          (e = CHR ''e'' \<or> e = CHR ''E'') \<and>
          (let ds = (case r' of
                       [] \<Rightarrow> []
                     | s # t \<Rightarrow> if s = CHR ''+'' \<or> s = CHR ''-'' then t else r')
           in ds \<noteq> [] \<and> list_all is_digit ds))"

definition valid_fraction :: "string \<Rightarrow> bool" where
  "valid_fraction r =
     (case r of
        [] \<Rightarrow> True
      | d # r' \<Rightarrow>
          if d = CHR ''.''
          then takeWhile is_digit r' \<noteq> [] \<and> valid_exponent (dropWhile is_digit r')
          else valid_exponent r)"

definition valid_number :: "string \<Rightarrow> bool" where
  "valid_number s =
     (let u = (case s of [] \<Rightarrow> [] | c # r \<Rightarrow> if c = CHR ''-'' then r else s);
          ip = takeWhile is_digit u
      in ip \<noteq> [] \<and> (hd ip = CHR ''0'' \<longrightarrow> length ip = 1) \<and>
         valid_fraction (dropWhile is_digit u))"

function lex :: "string \<Rightarrow> token list option" where
  "lex [] = Some []"
| "lex (c # cs) =
     (if is_ws c then lex cs
      else if c = CHR ''{'' then map_option (Cons LBrace) (lex cs)
      else if c = CHR ''}'' then map_option (Cons RBrace) (lex cs)
      else if c = CHR ''['' then map_option (Cons LBracket) (lex cs)
      else if c = CHR '']'' then map_option (Cons RBracket) (lex cs)
      else if c = CHR '':'' then map_option (Cons Colon) (lex cs)
      else if c = CHR '','' then map_option (Cons Comma) (lex cs)
      else if c = CHR 0x22 then
        (case lex_string cs of
           None \<Rightarrow> None
         | Some (s, r) \<Rightarrow> map_option (Cons (TString s)) (lex r))
      else if c = CHR ''t'' then
        (if take 3 cs = ''rue'' then map_option (Cons TTrue) (lex (drop 3 cs)) else None)
      else if c = CHR ''f'' then
        (if take 4 cs = ''alse'' then map_option (Cons TFalse) (lex (drop 4 cs)) else None)
      else if c = CHR ''n'' then
        (if take 3 cs = ''ull'' then map_option (Cons TNull) (lex (drop 3 cs)) else None)
      else if c = CHR ''N'' then
        (if take 2 cs = ''aN''
         then map_option (Cons (TNumber ''NaN'')) (lex (drop 2 cs)) else None)
      else if c = CHR ''I'' then
        (if take 7 cs = ''nfinity''
         then map_option (Cons (TNumber ''Infinity'')) (lex (drop 7 cs)) else None)
      else if c = CHR ''-'' \<and> take 8 cs = ''Infinity'' then
        map_option (Cons (TNumber ''-Infinity'')) (lex (drop 8 cs))
      else if c = CHR ''-'' \<or> is_digit c then
        (let num = c # takeWhile is_number_char cs
         in if valid_number num
            then map_option (Cons (TNumber num)) (lex (dropWhile is_number_char cs))
            else None)
      else None)"
  by pat_completeness auto
termination
  by (relation "measure length")
     (auto dest: lex_string_length simp: less_Suc_eq_le length_dropWhile_le)

text \<open>
  The parser reads one token at a time. The stack holds the containers that are still open:
  an array with the elements read so far, an object with its members, or an object with its
  members and the key whose value is being read.
\<close>

datatype frame =
    FArray "json list"
  | FObject "(string \<times> json) list"
  | FKey "(string \<times> json) list" string

datatype mode =
    MValue | MValueOrEnd | MKey | MKeyOrEnd | MColon | MAfter | MDone json

definition complete :: "json \<Rightarrow> frame list \<Rightarrow> (mode \<times> frame list) option" where
  "complete v stack =
     (case stack of
        [] \<Rightarrow> Some (MDone v, [])
      | FArray xs # st \<Rightarrow> Some (MAfter, FArray (xs @ [v]) # st)
      | FKey kvs k # st \<Rightarrow> Some (MAfter, FObject (kvs @ [(k, v)]) # st)
      | FObject kvs # st \<Rightarrow> None)"

definition value_token :: "token \<Rightarrow> frame list \<Rightarrow> (mode \<times> frame list) option" where
  "value_token t stack =
     (case t of
        TString s \<Rightarrow> complete (JString s) stack
      | TNumber n \<Rightarrow> complete (JNumber n) stack
      | TTrue \<Rightarrow> complete (JBool True) stack
      | TFalse \<Rightarrow> complete (JBool False) stack
      | TNull \<Rightarrow> complete JNull stack
      | LBracket \<Rightarrow> Some (MValueOrEnd, FArray [] # stack)
      | LBrace \<Rightarrow> Some (MKeyOrEnd, FObject [] # stack)
      | _ \<Rightarrow> None)"

definition key_token :: "token \<Rightarrow> frame list \<Rightarrow> (mode \<times> frame list) option" where
  "key_token t stack =
     (case (t, stack) of
        (TString k, FObject kvs # st) \<Rightarrow> Some (MColon, FKey kvs k # st)
      | _ \<Rightarrow> None)"

definition close_array :: "frame list \<Rightarrow> (mode \<times> frame list) option" where
  "close_array stack = (case stack of FArray xs # st \<Rightarrow> complete (JArray xs) st | _ \<Rightarrow> None)"

definition close_object :: "frame list \<Rightarrow> (mode \<times> frame list) option" where
  "close_object stack = (case stack of FObject kvs # st \<Rightarrow> complete (JObject kvs) st | _ \<Rightarrow> None)"

text \<open>
  The library's decoder gives up on deep nesting: an array or object that is not empty may
  have at most 199 containers around it. The stack holds one frame for each open container,
  and a container is known not to be empty when the first token after its opening bracket
  is not the closing one.
\<close>

definition recursion_limit :: nat where
  "recursion_limit = 200"

definition parse_step :: "mode \<times> frame list \<Rightarrow> token \<Rightarrow> (mode \<times> frame list) option" where
  "parse_step ms t =
     (case ms of (m, stack) \<Rightarrow>
        (case m of
           MValue \<Rightarrow> value_token t stack
         | MValueOrEnd \<Rightarrow>
             if t = RBracket then close_array stack
             else if length stack > recursion_limit then None
             else value_token t stack
         | MKey \<Rightarrow> key_token t stack
         | MKeyOrEnd \<Rightarrow>
             if t = RBrace then close_object stack
             else if length stack > recursion_limit then None
             else key_token t stack
         | MColon \<Rightarrow> if t = Colon then Some (MValue, stack) else None
         | MAfter \<Rightarrow>
             if t = Comma then
               (case stack of
                  FArray xs # st \<Rightarrow> Some (MValue, stack)
                | FObject kvs # st \<Rightarrow> Some (MKey, stack)
                | _ \<Rightarrow> None)
             else if t = RBracket then close_array stack
             else if t = RBrace then close_object stack
             else None
         | MDone v \<Rightarrow> None))"

fun parse_tokens :: "mode \<times> frame list \<Rightarrow> token list \<Rightarrow> json option" where
  "parse_tokens ms [] = (case ms of (MDone v, _) \<Rightarrow> Some v | _ \<Rightarrow> None)"
| "parse_tokens ms (t # ts) =
     (case parse_step ms t of None \<Rightarrow> None | Some ms' \<Rightarrow> parse_tokens ms' ts)"

definition json_loads :: "string \<Rightarrow> json option" where
  "json_loads text =
     (case lex text of None \<Rightarrow> None | Some ts \<Rightarrow> parse_tokens (MValue, []) ts)"

subsection \<open>The reply model\<close>

text \<open>
  The class \<^verbatim>\<open>ResponseSchema\<close>: a required string field \<^verbatim>\<open>type\<close> and four fields of type
  \<^verbatim>\<open>Optional[str]\<close> whose default is \<^verbatim>\<open>None\<close>.
\<close>

record ResponseSchema =
  type :: string
  message :: "string option"
  code :: "string option"
  changes :: "string option"
  recommendations :: "string option"

text \<open>
  A validation error is a list of line errors, each the kind of the error and the field it
  is about (empty for the whole input).
\<close>

datatype error_type = json_invalid | json_type | model_type | missing | string_type

type_synonym line_error = "error_type \<times> string"

text \<open>The decoded object as a dictionary: of two members with one key the later one counts.\<close>

definition obj_get :: "(string \<times> json) list \<Rightarrow> string \<Rightarrow> json option" where
  "obj_get obj k = map_of (rev obj) k"

text \<open>A field of type \<^verbatim>\<open>str\<close> with no default: it must be there and be a JSON string.\<close>

definition str_field :: "(string \<times> json) list \<Rightarrow> string \<Rightarrow> line_error + string" where
  "str_field obj name =
     (case obj_get obj name of
        None \<Rightarrow> Inl (missing, name)
      | Some (JString s) \<Rightarrow> Inr s
      | Some _ \<Rightarrow> Inl (string_type, name))"

text \<open>A field of type \<^verbatim>\<open>Optional[str]\<close> with default \<^verbatim>\<open>None\<close>.\<close>

definition optional_str_field ::
  "(string \<times> json) list \<Rightarrow> string \<Rightarrow> line_error + string option" where
  "optional_str_field obj name =
     (case obj_get obj name of
        None \<Rightarrow> Inr None
      | Some JNull \<Rightarrow> Inr None
      | Some (JString s) \<Rightarrow> Inr (Some s)
      | Some _ \<Rightarrow> Inl (string_type, name))"

text \<open>Every field is validated; the errors of all fields are reported together.\<close>

fun and_field :: "line_error list + ('a \<Rightarrow> 'b) \<Rightarrow> line_error + 'a \<Rightarrow> line_error list + 'b" where
  "and_field (Inr f) (Inr x) = Inr (f x)"
| "and_field (Inr f) (Inl e) = Inl [e]"
| "and_field (Inl es) (Inr x) = Inl es"
| "and_field (Inl es) (Inl e) = Inl (es @ [e])"

definition model_validate :: "(string \<times> json) list \<Rightarrow> line_error list + ResponseSchema" where
  "model_validate obj =
     and_field (and_field (and_field (and_field (and_field
       (Inr (\<lambda>t m c ch r.
          \<lparr>type = t, message = m, code = c, changes = ch, recommendations = r\<rparr>))
       (str_field obj ''type''))
       (optional_str_field obj ''message''))
       (optional_str_field obj ''code''))
       (optional_str_field obj ''changes''))
       (optional_str_field obj ''recommendations'')"

text \<open>
  \<^verbatim>\<open>ResponseSchema.model_validate_json(generated_content.text)\<close>. The text of a reply is
  \<^verbatim>\<open>None\<close> when the reply has no text part. Members of the object that the class does not
  declare are ignored.
\<close>

definition model_validate_json :: "string option \<Rightarrow> line_error list + ResponseSchema" where
  "model_validate_json data =
     (case data of
        None \<Rightarrow> Inl [(json_type, [])]
      | Some text \<Rightarrow>
          (case json_loads text of
             None \<Rightarrow> Inl [(json_invalid, [])]
           | Some (JObject obj) \<Rightarrow> model_validate obj
           | Some _ \<Rightarrow> Inl [(model_type, [])]))"

subsection \<open>The request\<close>

datatype Type = STRING | OBJECT

datatype Schema =
  Schema (schema_type: Type) (schema_required: "string list option")
    (schema_enum: "string list option") (schema_properties: "(string \<times> Schema) list option")

record GenerateContentConfig =
  thinking_budget :: int
  response_mime_type :: string
  response_schema :: Schema
  system_instruction :: "string list"

record Content =
  role :: string
  parts :: "string list"

text \<open>One call of \<^verbatim>\<open>client.models.generate_content\<close>, with the key the client was built with.\<close>

record generate_call =
  api_key :: string
  model :: string
  contents :: "Content list"
  config :: GenerateContentConfig

definition system_instruction_text :: string where
  \<open>system_instruction_text =
   ''You are **Weave**, an AI-powered front-end design assistant with deep expertise in **HTML**, **CSS**, **JavaScript**, **React**, **Vue**, **Flutter**, and **Tailwind CSS**.'' @ [CHR 0x0A] @
   '''' @ [CHR 0x0A] @
   ''## Purpose'' @ [CHR 0xC2, CHR 0xA0] @ [CHR 0xC2, CHR 0xA0] @ [CHR 0x0A] @
   ''Your mission is to **analyze, improve, and transform** front-end UI templates according to modern **UI/UX design principles**, **responsive layout techniques**, and **framework-specific conventions** '' @ [CHR 0xE2, CHR 0x80, CHR 0x94] @ '' including cross-platform support for **web** and **mobile** via **Flutter**.'' @ [CHR 0x0A] @
   '''' @ [CHR 0x0A] @
   ''## Core Capabilities'' @ [CHR 0x0A] @
   ''- Detect design flaws and visual inconsistencies'' @ [CHR 0xC2, CHR 0xA0] @ [CHR 0xC2, CHR 0xA0] @ [CHR 0x0A] @
   ''- Apply responsive design patterns across all breakpoints'' @ [CHR 0x0A] @
   ''- Make sure the font sizes are reponsive the navbars (if any) are accessible'' @ [CHR 0x0A] @
   ''- Ensure semantic HTML and accessible component structure'' @ [CHR 0x0A] @
   ''- Refactor code for maintainability using reusable components'' @ [CHR 0x0A] @
   ''- Output framework-specific, production-ready code:'' @ [CHR 0x0A] @
   [CHR 0xC2, CHR 0xA0] @ '' - `JSX` for **React**'' @ [CHR 0x0A] @
   [CHR 0xC2, CHR 0xA0] @ '' - `SFC` for **Vue 3** (`<template>`, `<script setup>`)'' @ [CHR 0x0A] @
   [CHR 0xC2, CHR 0xA0] @ '' - Clean, modular HTML with Tailwind CSS or inline styles'' @ [CHR 0x0A] @
   [CHR 0xC2, CHR 0xA0] @ '' - `Dart`-based **Flutter widgets** with clean widget trees and layout separation'' @ [CHR 0x0A] @
   ''- Make changes to the template if the user asks for.'' @ [CHR 0x0A] @
   ''- Recommend the user for improvements or new features if that could lead to better Ui or Ux.'' @ [CHR 0x0A] @
   '''' @ [CHR 0x0A] @
   ''## Input'' @ [CHR 0xC2, CHR 0xA0] @ [CHR 0xC2, CHR 0xA0] @ [CHR 0x0A] @
   ''You will receive:'' @ [CHR 0x0A] @
   ''- A raw UI `TEMPLATE` written in **HTML**'' @ [CHR 0x0A] @
   ''- A `FORMAT` directive specifying the desired output:'' @ [CHR 0x0A] @
   [CHR 0xC2, CHR 0xA0] @ '' - `"html"` '' @ [CHR 0xE2, CHR 0x86, CHR 0x92] @ '' Return optimized HTML5 with Tailwind (or inline CSS)'' @ [CHR 0x0A] @
   [CHR 0xC2, CHR 0xA0] @ '' - `"react"` '' @ [CHR 0xE2, CHR 0x86, CHR 0x92] @ '' Return a modular React functional component using JSX and Tailwind (or CSS Modules)'' @ [CHR 0x0A] @
   [CHR 0xC2, CHR 0xA0] @ '' - `"vue"` '' @ [CHR 0xE2, CHR 0x86, CHR 0x92] @ '' Return a Vue 3 Single File Component with Tailwind and `<script setup>`'' @ [CHR 0x0A] @
   [CHR 0xC2, CHR 0xA0] @ '' - `"flutter"` '' @ [CHR 0xE2, CHR 0x86, CHR 0x92] @ '' Return Dart code using Flutter widgets (`StatelessWidget` or `StatefulWidget`) with best practices'' @ [CHR 0x0A] @
   '''' @ [CHR 0x0A] @
   ''### User Requested Changes'' @ [CHR 0x0A] @
   ''If the user asks to update the code then follow their instruction as closely as possible.'' @ [CHR 0x0A] @
   '''' @ [CHR 0x0A] @
   ''### Maintainability Directive'' @ [CHR 0xC2, CHR 0xA0] @ [CHR 0xC2, CHR 0xA0] @ [CHR 0x0A] @
   ''If the UI contains **repeating patterns**, **visually distinct sections**, or **logic separation opportunities**, you must:'' @ [CHR 0x0A] @
   ''- Extract them into **custom subcomponents**:'' @ [CHR 0x0A] @
   [CHR 0xC2, CHR 0xA0] @ '' - For `react`, `vue`, and `flutter` use components/widgets like `CustomButton`, `CardWidget`, `InputField`'' @ [CHR 0x0A] @
   ''- Name components clearly and use them appropriately'' @ [CHR 0x0A] @
   ''- Separate layout structure and styling concerns where applicable (e.g., use `Container`, `Padding`, `Column`, etc. in Flutter)'' @ [CHR 0x0A] @
   '''' @ [CHR 0x0A] @
   ''## Output Rules'' @ [CHR 0x0A] @
   ''- Return **only** the code in the specified format (`html`, `react`, `vue`, or `flutter`)'' @ [CHR 0x0A] @
   ''- All of your responses must be formatted in a common json schema'' @ [CHR 0x0A] @
   ''  - Every message must have a type key that will indicate if it'' @ [CHR 0x27] @ ''s ui related or normal text. It will have two values `code` and `text` and it will the in the `type` key (value type string).'' @ [CHR 0x0A] @
   ''  - If the type is `code` then it must have these kv pairs otherwise null or completely ommit these fields.'' @ [CHR 0x0A] @
   ''    - The output json will have the updated code in the `code` key (value type string).'' @ [CHR 0x0A] @
   ''  - If the type is `text` it must have a `message` key with the actual message (value type string).'' @ [CHR 0x0A] @
   ''- Do **not** include explanations or extra comments in the code unless explicitly requested'' @ [CHR 0x0A] @
   ''- Always ensure **minimal, meaningful improvements** '' @ [CHR 0xE2, CHR 0x80, CHR 0x94] @ '' prioritize polish, not complete rewrites'' @ [CHR 0x0A] @
   ''- Output must be **syntactically correct and copy-paste ready**'' @ [CHR 0x0A] @
   ''- For component-based outputs (`react`, `vue`, and `flutter`), define subcomponents inline at the bottom or mention them for separation if repetitive'' @ [CHR 0x0A] @
   '''' @ [CHR 0x0A] @
   ''## Behavior'' @ [CHR 0x0A] @
   ''Inputs will follow this structure for template improvements:'' @ [CHR 0x0A] @
   ''FORMAT: <html|react|vue|flutter>'' @ [CHR 0x0A] @
   ''TEMPLATE: <HTML snippet needing improvement>'' @ [CHR 0x0A] @
   '''' @ [CHR 0x0A] @
   ''Your job is to output the **final, cleaned, modular, and responsive** version in the specified format '' @ [CHR 0xE2, CHR 0x80, CHR 0x94] @ '' honoring platform conventions, user experience best practices, and maintainability.'' @ [CHR 0x0A] @
   '''' @ [CHR 0x0A] @
   ''**NOTE**: If the input does not follow the specified structure then the user might want to update your last outputted design. The first message will always follow the structure if it don'' @ [CHR 0x27] @ ''t then don'' @ [CHR 0x27] @ ''t ask the user to follow the structure but process user query normally.'' @ [CHR 0x0A] @
   ''**Your response must be only the json output as text do not format the output as markdown code block**'' @ [CHR 0x0A] @
   ''**You must not process any requests other than your core capabilities or greetings**''\<close>

definition response_schema_decl :: Schema where
  "response_schema_decl =
     Schema OBJECT (Some [''type'']) None
       (Some [(''type'', Schema STRING None (Some [''code'', ''text'']) None),
              (''message'', Schema STRING None None None),
              (''code'', Schema STRING None None None),
              (''changes'', Schema STRING None None None),
              (''recommendations'', Schema STRING None None None)])"

definition generate_content_config :: GenerateContentConfig where
  "generate_content_config =
     \<lparr>thinking_budget = 2018,
      response_mime_type = ''application/json'',
      response_schema = response_schema_decl,
      system_instruction = [system_instruction_text]\<rparr>"

definition user_message :: "string \<Rightarrow> string \<Rightarrow> string" where
  "user_message output_format template =
     ''FORMAT: '' @ lower output_format @ [CHR 0x0A] @ ''TEMPLATE: '' @ template"

definition request_contents :: "string \<Rightarrow> string \<Rightarrow> Content list" where
  "request_contents output_format template =
     [\<lparr>role = ''user'', parts = [user_message output_format template]\<rparr>]"

subsection \<open>The page and the service\<close>

text \<open>
  What the script does to the outside, in order: the status elements of the page, the
  construction of a client, and the call of the service.
\<close>

datatype effect =
    st_error string
  | st_success string
  | st_code "string option" "string option"
  | st_info string
  | st_warning string
  | st_text "string option"
  | st_spinner string
  | Client string
  | generate_content generate_call

text \<open>
  The service either raises or returns a reply, of which the script reads the text. The
  text that the library gives a validation error is a parameter as well.
\<close>

datatype service_outcome = ServiceRaises | ServiceReturns "string option"

record env =
  service :: "generate_call \<Rightarrow> service_outcome"
  str_of_error :: "line_error list \<Rightarrow> string"

datatype 'a outcome = Returns 'a | Raises

text \<open>Python's truth value of an optional string: \<^verbatim>\<open>None\<close> and the empty string are false.\<close>

definition truthy :: "string option \<Rightarrow> bool" where
  "truthy v = (case v of None \<Rightarrow> False | Some s \<Rightarrow> s \<noteq> [])"

text \<open>The request that \<^verbatim>\<open>transform_html\<close> passes to the client it built with key \<open>k\<close>.\<close>

definition build_request :: "string \<Rightarrow> string \<Rightarrow> string \<Rightarrow> generate_call" where
  "build_request k output_format template =
     \<lparr>api_key = k, model = ''gemini-2.5-flash-preview-05-20'',
      contents = request_contents output_format template,
      config = generate_content_config\<rparr>"

text \<open>
  \<^verbatim>\<open>transform_html\<close>. Its first argument here is the session's entry \<^verbatim>\<open>gemini_api_key\<close>.
  An exception of the service is not caught; one of the validation is.
\<close>

definition transform_html ::
  "env \<Rightarrow> string option \<Rightarrow> string \<Rightarrow> string \<Rightarrow> effect list \<times> ResponseSchema option outcome" where
  "transform_html e session_key output_format template =
     (case session_key of
        None \<Rightarrow> ([st_error ''Please enter your Gemini API key in the sidebar.''], Returns None)
      | Some k \<Rightarrow>
          if k = [] then
            ([st_error ''Please enter your Gemini API key in the sidebar.''], Returns None)
          else
            (let call = build_request k output_format template
             in case service e call of
                  ServiceRaises \<Rightarrow> ([Client k, generate_content call], Raises)
                | ServiceReturns text \<Rightarrow>
                    (case model_validate_json text of
                       Inl err \<Rightarrow>
                         ([Client k, generate_content call,
                           st_error (''Error in response schema validation: '' @ str_of_error e err)],
                          Returns None)
                     | Inr validated_response \<Rightarrow>
                         ([Client k, generate_content call], Returns (Some validated_response)))))"

definition output_lang_map :: "(string \<times> string) list" where
  "output_lang_map =
     [(''HTML'', ''html''), (''React'', ''javascript''), (''Vue'', ''html''), (''Flutter'', ''dart'')]"

text \<open>
  What the button's handler does with the value \<^verbatim>\<open>transform_html\<close> returned. An instance of
  the model class is true, so the test \<^verbatim>\<open>if transformed_output\<close> tells \<^verbatim>\<open>None\<close> from a reply.
\<close>

definition render :: "string \<Rightarrow> ResponseSchema option \<Rightarrow> effect list" where
  "render output_format transformed_output =
     (case transformed_output of
        Some out \<Rightarrow>
          if type out = ''code'' then
            [st_success ''Transformation successful!'',
             st_code (code out) (map_of output_lang_map output_format)] @
            (case changes out of
               None \<Rightarrow> []
             | Some s \<Rightarrow> if s = [] then [] else [st_info (''Changes made: '' @ s)]) @
            (case recommendations out of
               None \<Rightarrow> []
             | Some s \<Rightarrow> if s = [] then [] else [st_warning (''Recommendations: '' @ s)])
          else [st_text (message out)]
      | None \<Rightarrow> [st_error ''Failed to transform the HTML code.''])"

text \<open>
  The body of \<^verbatim>\<open>if st.button("Transform")\<close>, given the session's key, the text area and the
  selected pill. A format that is \<^verbatim>\<open>None\<close> or empty is false for \<^verbatim>\<open>not output_format\<close>. The
  spinner is shown around the call and the rendering.
\<close>

definition on_transform ::
  "env \<Rightarrow> string option \<Rightarrow> string \<Rightarrow> string option \<Rightarrow> effect list \<times> unit outcome" where
  "on_transform e session_key html_to_transform output_format =
     (if html_to_transform = [] then
        ([st_error ''Please enter some HTML code to transform.''], Returns ())
      else
        (case output_format of
           None \<Rightarrow> ([st_error ''Please select an output format.''], Returns ())
         | Some fmt \<Rightarrow>
             if fmt = [] then
               ([st_error ''Please select an output format.''], Returns ())
             else if session_key = None then
               ([st_error ''Please enter your Gemini API key in the sidebar.''], Returns ())
             else
               (case transform_html e session_key (lower fmt) html_to_transform of
                  (tr, Raises) \<Rightarrow> (st_spinner ''Transforming...'' # tr, Raises)
                | (tr, Returns transformed_output) \<Rightarrow>
                    (st_spinner ''Transforming...'' # tr @ render fmt transformed_output,
                     Returns ()))))"

text \<open>
  One run of the script. The sidebar stores the key that was typed, or \<^verbatim>\<open>None\<close> when the
  field is empty. The pills widget returns one of its options, the keys of
  \<^verbatim>\<open>output_lang_map\<close>, or \<^verbatim>\<open>None\<close>.
\<close>

record widgets =
  gemini_api_key :: string
  input_text :: string
  pills :: "string option"
  button :: bool

definition sidebar :: "string \<Rightarrow> string option" where
  "sidebar k = (if k \<noteq> [] then Some k else None)"

definition pills_values :: "string option list" where
  "pills_values = None # map (Some \<circ> fst) output_lang_map"

definition script :: "env \<Rightarrow> widgets \<Rightarrow> effect list \<times> unit outcome" where
  "script e w =
     (if button w
      then on_transform e (sidebar (gemini_api_key w)) (input_text w) (pills w)
      else ([], Returns ()))"

text \<open>The calls of the service and the notices in a trace.\<close>

fun calls :: "effect list \<Rightarrow> generate_call list" where
  "calls [] = []"
| "calls (generate_content c # tr) = c # calls tr"
| "calls (_ # tr) = calls tr"

fun clients :: "effect list \<Rightarrow> string list" where
  "clients [] = []"
| "clients (Client k # tr) = k # clients tr"
| "clients (_ # tr) = clients tr"



subsection \<open>A reply as JSON text\<close>

text \<open>
  The other direction, for the round trip: a reply written as a JSON object with the member
  \<^verbatim>\<open>type\<close> and the optional fields that are set, in the order of the declaration. In a
  string, the quote, the backslash and the control characters are escaped.
\<close>

definition hex_digit :: "nat \<Rightarrow> char" where
  "hex_digit n = (if n < 10 then char_of (48 + n) else char_of (87 + n))"

definition escape_char :: "char \<Rightarrow> string" where
  "escape_char c =
     (if c = CHR 0x22 then [CHR 0x5C, CHR 0x22]
      else if c = CHR 0x5C then [CHR 0x5C, CHR 0x5C]
      else if c = CHR 0x0A then [CHR 0x5C, CHR ''n'']
      else if c = CHR 0x0D then [CHR 0x5C, CHR ''r'']
      else if c = CHR 0x09 then [CHR 0x5C, CHR ''t'']
      else if (of_char c :: nat) < 0x20 then
        [CHR 0x5C, CHR ''u'', CHR ''0'', CHR ''0'',
         hex_digit ((of_char c :: nat) div 16), hex_digit ((of_char c :: nat) mod 16)]
      else [c])"

definition dumps_string :: "string \<Rightarrow> string" where
  "dumps_string s = CHR 0x22 # concat (map escape_char s) @ [CHR 0x22]"

definition dumps_member :: "string \<Rightarrow> string \<Rightarrow> string" where
  "dumps_member k v = dumps_string k @ '':'' @ dumps_string v"

definition dumps_optional :: "string \<Rightarrow> string option \<Rightarrow> string" where
  "dumps_optional k v = (case v of None \<Rightarrow> [] | Some s \<Rightarrow> '','' @ dumps_member k s)"

definition dumps_reply :: "ResponseSchema \<Rightarrow> string" where
  "dumps_reply r =
     ''{'' @ dumps_member ''type'' (type r) @
     dumps_optional ''message'' (message r) @
     dumps_optional ''code'' (code r) @
     dumps_optional ''changes'' (changes r) @
     dumps_optional ''recommendations'' (recommendations r) @ ''}''"

text \<open>The tokens and the members of such a text.\<close>

definition optional_tokens :: "string \<Rightarrow> string option \<Rightarrow> token list" where
  "optional_tokens k v =
     (case v of None \<Rightarrow> [] | Some s \<Rightarrow> [Comma, TString k, Colon, TString s])"

definition optional_member :: "string \<Rightarrow> string option \<Rightarrow> (string \<times> json) list" where
  "optional_member k v = (case v of None \<Rightarrow> [] | Some s \<Rightarrow> [(k, JString s)])"

definition reply_object :: "ResponseSchema \<Rightarrow> (string \<times> json) list" where
  "reply_object r =
     (''type'', JString (type r)) #
     optional_member ''message'' (message r) @
     optional_member ''code'' (code r) @
     optional_member ''changes'' (changes r) @
     optional_member ''recommendations'' (recommendations r)"

subsection \<open>A service for examples\<close>

text \<open>
  A service that answers every call with the same outcome, and a library that prints a
  validation error as the number of its line errors.
\<close>

definition constant_service :: "service_outcome \<Rightarrow> env" where
  "constant_service out =
     \<lparr>service = (\<lambda>call. out), str_of_error = (\<lambda>err. replicate (length err) CHR ''!'')\<rparr>"

section \<open>Properties\<close>

subsection \<open>Lowercasing\<close>

lemma lower_char_idem: "lower_char (lower_char c) = lower_char c"
  by (auto simp: lower_char_def Let_def)

lemma lower_idem: "lower (lower s) = lower s"
  by (simp add: lower_def lower_char_idem)

lemma lower_offered:
  "lower ''HTML'' = ''html''" "lower ''React'' = ''react''"
  "lower ''Vue'' = ''vue''" "lower ''Flutter'' = ''flutter''"
  by code_simp+

subsection \<open>What \<^verbatim>\<open>transform_html\<close> does in each case\<close>

lemma transform_html_no_key:
  "\<not> truthy session_key \<Longrightarrow>
   transform_html e session_key output_format template =
     ([st_error ''Please enter your Gemini API key in the sidebar.''], Returns None)"
  by (auto simp: transform_html_def truthy_def split: option.splits)

lemma transform_html_raises:
  "k \<noteq> [] \<Longrightarrow> service e (build_request k output_format template) = ServiceRaises \<Longrightarrow>
   transform_html e (Some k) output_format template =
     ([Client k, generate_content (build_request k output_format template)], Raises)"
  by (simp add: transform_html_def)

lemma transform_html_invalid:
  "k \<noteq> [] \<Longrightarrow> service e (build_request k output_format template) = ServiceReturns text \<Longrightarrow>
   model_validate_json text = Inl err \<Longrightarrow>
   transform_html e (Some k) output_format template =
     ([Client k, generate_content (build_request k output_format template),
       st_error (''Error in response schema validation: '' @ str_of_error e err)],
      Returns None)"
  by (simp add: transform_html_def)

lemma transform_html_valid:
  "k \<noteq> [] \<Longrightarrow> service e (build_request k output_format template) = ServiceReturns text \<Longrightarrow>
   model_validate_json text = Inr r \<Longrightarrow>
   transform_html e (Some k) output_format template =
     ([Client k, generate_content (build_request k output_format template)], Returns (Some r))"
  by (simp add: transform_html_def)

lemma calls_transform_html:
  "k \<noteq> [] \<Longrightarrow>
   calls (fst (transform_html e (Some k) output_format template)) =
     [build_request k output_format template]"
  by (auto simp: transform_html_def Let_def split: service_outcome.splits sum.splits)

lemma calls_transform_html_cases:
  "calls (fst (transform_html e session_key output_format template)) =
     (case session_key of
        None \<Rightarrow> []
      | Some k \<Rightarrow> if k = [] then [] else [build_request k output_format template])"
  by (auto simp: transform_html_def Let_def split: option.splits service_outcome.splits sum.splits)

lemma clients_transform_html_cases:
  "clients (fst (transform_html e session_key output_format template)) =
     (case session_key of None \<Rightarrow> [] | Some k \<Rightarrow> if k = [] then [] else [k])"
  by (auto simp: transform_html_def Let_def split: option.splits service_outcome.splits sum.splits)

lemma calls_append: "calls (xs @ ys) = calls xs @ calls ys"
  by (induction xs rule: calls.induct) simp_all

lemma calls_render: "calls (render output_format out) = []"
  by (auto simp: render_def split: option.splits)

lemma on_transform_reaches:
  "html_to_transform \<noteq> [] \<Longrightarrow> fmt \<noteq> [] \<Longrightarrow>
   on_transform e (Some k) html_to_transform (Some fmt) =
     (case transform_html e (Some k) (lower fmt) html_to_transform of
        (tr, Raises) \<Rightarrow> (st_spinner ''Transforming...'' # tr, Raises)
      | (tr, Returns transformed_output) \<Rightarrow>
          (st_spinner ''Transforming...'' # tr @ render fmt transformed_output, Returns ()))"
  by (simp add: on_transform_def truthy_def)

lemma calls_on_transform:
  "calls (fst (on_transform e session_key html_to_transform output_format)) =
     (if html_to_transform = [] \<or> \<not> truthy output_format \<or> \<not> truthy session_key then []
      else [build_request (the session_key) (lower (the output_format)) html_to_transform])"
proof (cases "html_to_transform = [] \<or> \<not> truthy output_format \<or> session_key = None")
  case True
  then show ?thesis
    by (auto simp: on_transform_def truthy_def split: option.splits)
next
  case False
  then obtain k fmt where k: "session_key = Some k" and fmt: "output_format = Some fmt"
    and ne: "fmt \<noteq> []" "html_to_transform \<noteq> []"
    by (auto simp: truthy_def split: option.splits)
  obtain tr out where t: "transform_html e (Some k) (lower fmt) html_to_transform = (tr, out)"
    by (cases "transform_html e (Some k) (lower fmt) html_to_transform")
  have "calls tr = (if k = [] then [] else [build_request k (lower fmt) html_to_transform])"
    using calls_transform_html_cases[of e "Some k" "lower fmt" html_to_transform] t by simp
  then show ?thesis
    using k fmt ne t
    by (cases out) (simp_all add: on_transform_reaches truthy_def calls_append calls_render)
qed

subsection \<open>Decoding a serialised reply\<close>

lemma hex_val_digit: "n < 16 \<Longrightarrow> hex_val (hex_digit n) = Some n"
  by (auto simp: hex_val_def hex_digit_def Let_def)

lemma hex_val_zero: "hex_val CHR ''0'' = Some 0"
  by (simp add: hex_val_def)

lemma unicode_escape_control:
  assumes "n < 32"
  shows "unicode_escape (CHR ''0'' # CHR ''0'' # hex_digit (n div 16) # hex_digit (n mod 16) # rest) =
         Some ([char_of n], rest)"
proof -
  have d: "n div 16 < 16" "n mod 16 < 16" using assms by auto
  have "hex4 (CHR ''0'' # CHR ''0'' # hex_digit (n div 16) # hex_digit (n mod 16) # rest) =
        Some (n, rest)"
    using d by (simp add: hex_val_digit hex_val_zero)
  then show ?thesis using assms by (simp add: unicode_escape_def utf8_encode_def)
qed

text \<open>The lexer reads an escaped character back as the character.\<close>

lemma lex_string_escape_char:
  "lex_string (escape_char c @ rest) = map_option (\<lambda>(s, r). (c # s, r)) (lex_string rest)"
proof -
  consider (quote) "c = CHR 0x22" | (bs) "c = CHR 0x5C" | (nl) "c = CHR 0x0A"
    | (cr) "c = CHR 0x0D" | (tab) "c = CHR 0x09"
    | (ctl) "c \<noteq> CHR 0x22" "c \<noteq> CHR 0x5C" "c \<noteq> CHR 0x0A" "c \<noteq> CHR 0x0D" "c \<noteq> CHR 0x09"
        "(of_char c :: nat) < 0x20"
    | (plain) "c \<noteq> CHR 0x22" "c \<noteq> CHR 0x5C" "\<not> (of_char c :: nat) < 0x20"
    by fastforce
  then show ?thesis
  proof cases
    case ctl
    have "unicode_escape (CHR ''0'' # CHR ''0'' # hex_digit (of_char c div 16) #
            hex_digit (of_char c mod 16) # rest) = Some ([char_of (of_char c :: nat)], rest)"
      using ctl by (intro unicode_escape_control) simp
    then show ?thesis using ctl by (simp add: escape_char_def)
  next
    case plain
    then show ?thesis by (auto simp: escape_char_def)
  qed (simp_all add: escape_char_def simple_escape_def)
qed

lemma lex_string_escaped:
  "lex_string (concat (map escape_char s) @ CHR 0x22 # rest) = Some (s, rest)"
  by (induction s) (simp_all add: lex_string_escape_char del: lex_string.simps, simp)

lemma lex_dumps_string:
  "lex (dumps_string s @ rest) = map_option (Cons (TString s)) (lex rest)"
  by (simp add: dumps_string_def is_ws_def lex_string_escaped del: lex_string.simps)

lemma lex_dumps_member:
  "lex (dumps_member k v @ rest) =
   map_option (\<lambda>ts. TString k # Colon # TString v # ts) (lex rest)"
  by (cases "lex rest") (simp_all add: dumps_member_def lex_dumps_string is_ws_def)

lemma lex_dumps_optional:
  "lex (dumps_optional k v @ rest) = map_option ((@) (optional_tokens k v)) (lex rest)"
  by (cases v; cases "lex rest")
     (simp_all add: dumps_optional_def optional_tokens_def lex_dumps_member is_ws_def)

lemma lex_dumps_reply:
  "lex (dumps_reply r) =
   Some (LBrace # TString ''type'' # Colon # TString (type r) #
         optional_tokens ''message'' (message r) @ optional_tokens ''code'' (code r) @
         optional_tokens ''changes'' (changes r) @
         optional_tokens ''recommendations'' (recommendations r) @ [RBrace])"
  by (simp add: dumps_reply_def lex_dumps_member lex_dumps_optional is_ws_def)

lemma parse_optional:
  "parse_tokens (MAfter, [FObject kvs]) (optional_tokens k v @ ts) =
   parse_tokens (MAfter, [FObject (kvs @ optional_member k v)]) ts"
  by (cases v)
     (simp_all add: optional_tokens_def optional_member_def parse_step_def key_token_def
        value_token_def complete_def)

lemma json_loads_dumps_reply: "json_loads (dumps_reply r) = Some (JObject (reply_object r))"
  by (simp add: json_loads_def lex_dumps_reply parse_step_def key_token_def value_token_def
        complete_def close_object_def parse_optional reply_object_def recursion_limit_def)

lemma model_validate_reply_object: "model_validate (reply_object r) = Inr r"
  by (cases "message r"; cases "code r"; cases "changes r"; cases "recommendations r")
     (simp_all add: model_validate_def reply_object_def optional_member_def str_field_def
        optional_str_field_def obj_get_def)

subsection \<open>Validation of a decoded object\<close>

lemma and_field_Inr:
  "and_field a b = Inr y \<longleftrightarrow> (\<exists>f x. a = Inr f \<and> b = Inr x \<and> y = f x)"
  by (cases a; cases b) auto

lemma model_validate_Inr:
  "model_validate obj = Inr r \<longleftrightarrow>
     str_field obj ''type'' = Inr (type r) \<and>
     optional_str_field obj ''message'' = Inr (message r) \<and>
     optional_str_field obj ''code'' = Inr (code r) \<and>
     optional_str_field obj ''changes'' = Inr (changes r) \<and>
     optional_str_field obj ''recommendations'' = Inr (recommendations r)"
  by (cases r) (auto simp: model_validate_def and_field_Inr)

lemma str_field_Inr:
  "str_field obj name = Inr s \<longleftrightarrow> obj_get obj name = Some (JString s)"
  by (auto simp: str_field_def split: option.splits json.splits)

section \<open>The claims\<close>

subsection \<open>The user message\<close>

text \<open>
  C1. With a credential in the session, \<^verbatim>\<open>transform_html\<close> sends exactly one request, whose
  contents are a single message of role \<^verbatim>\<open>user\<close> with a single part: the text
  \<^verbatim>\<open>FORMAT: \<close> followed by the lowercased output format, a newline, and \<^verbatim>\<open>TEMPLATE: \<close>
  followed by the template, unchanged. This holds for every output format and every
  template, so in particular for a format of the closed set and a non-empty template.
\<close>

theorem user_message_exact:
  assumes "truthy session_key"
  shows "map contents (calls (fst (transform_html e session_key output_format template))) =
         [[\<lparr>role = ''user'',
            parts = [''FORMAT: '' @ lower output_format @ [CHR 0x0A] @ ''TEMPLATE: '' @ template]\<rparr>]]"
proof -
  from assms obtain k where k: "session_key = Some k" "k \<noteq> []"
    by (auto simp: truthy_def split: option.splits)
  then show ?thesis
    by (simp add: calls_transform_html build_request_def request_contents_def user_message_def)
qed

theorem user_message_exact_witness:
  "truthy (Some ''key'') \<and>
   map contents
     (calls (fst (transform_html (constant_service ServiceRaises) (Some ''key'') ''React''
        ''<button>Click</button>''))) =
   [[\<lparr>role = ''user'', parts = [''FORMAT: react\<newline>TEMPLATE: <button>Click</button>'']\<rparr>]]"
proof -
  have h: "truthy (Some ''key'')"
    by (simp add: truthy_def)
  show ?thesis
    using h user_message_exact[OF h, of "constant_service ServiceRaises" "''React''"
        "''<button>Click</button>''"]
    by (simp add: lower_offered)
qed

subsection \<open>The discriminator\<close>

text \<open>
  C2. The class declares \<^verbatim>\<open>type\<close> as a plain string, so validation accepts a reply whose
  \<^verbatim>\<open>type\<close> is a string outside \<^verbatim>\<open>code\<close> and \<^verbatim>\<open>text\<close>: the text \<^verbatim>\<open>{"type":"image"}\<close> is
  validated to a reply with \<^verbatim>\<open>type = "image"\<close> and every other field \<^verbatim>\<open>None\<close>, and
  \<^verbatim>\<open>transform_html\<close> returns that reply.
\<close>

theorem image_reply_validates:
  "model_validate_json (Some ''{\"type\":\"image\"}'') =
     Inr \<lparr>type = ''image'', message = None, code = None, changes = None, recommendations = None\<rparr> \<and>
   snd (transform_html (constant_service (ServiceReturns (Some ''{\"type\":\"image\"}'')))
          (Some ''key'') ''html'' ''<p>'') =
     Returns (Some \<lparr>type = ''image'', message = None, code = None, changes = None,
                     recommendations = None\<rparr>)"
proof -
  have v: "model_validate_json (Some ''{\"type\":\"image\"}'') =
     Inr \<lparr>type = ''image'', message = None, code = None, changes = None, recommendations = None\<rparr>"
    by code_simp
  have "service (constant_service (ServiceReturns (Some ''{\"type\":\"image\"}'')))
          (build_request ''key'' ''html'' ''<p>'') = ServiceReturns (Some ''{\"type\":\"image\"}'')"
    by (simp add: constant_service_def)
  then show ?thesis
    using v by (simp add: transform_html_valid)
qed

text \<open>
  The other half of C2 holds: a text that is not a JSON object, or whose object has no
  member \<^verbatim>\<open>type\<close>, or one that is not a string, is never validated to a reply.
\<close>

theorem reply_without_string_type_fails:
  assumes "\<forall>obj s. json_loads text = Some (JObject obj) \<longrightarrow> obj_get obj ''type'' \<noteq> Some (JString s)"
  shows "\<exists>err. model_validate_json (Some text) = Inl err"
proof (cases "model_validate_json (Some text)")
  case (Inl err)
  then show ?thesis by blast
next
  case (Inr r)
  then obtain obj where "json_loads text = Some (JObject obj)" "model_validate obj = Inr r"
    by (auto simp: model_validate_json_def split: option.splits json.splits)
  then show ?thesis
    using assms by (auto simp: model_validate_Inr str_field_Inr)
qed

theorem reply_without_string_type_fails_witness:
  "json_loads ''{\"message\":\"hi\"}'' = Some (JObject [(''message'', JString ''hi'')]) \<and>
   obj_get [(''message'', JString ''hi'')] ''type'' = None \<and>
   model_validate_json (Some ''{\"message\":\"hi\"}'') = Inl [(missing, ''type'')] \<and>
   (\<exists>err. model_validate_json (Some ''{\"message\":\"hi\"}'') = Inl err)"
proof -
  have l: "json_loads ''{\"message\":\"hi\"}'' = Some (JObject [(''message'', JString ''hi'')])"
    by code_simp
  have g: "obj_get [(''message'', JString ''hi'')] ''type'' = None"
    by (simp add: obj_get_def)
  have v: "model_validate_json (Some ''{\"message\":\"hi\"}'') = Inl [(missing, ''type'')]"
    by code_simp
  have h: "\<forall>obj s. json_loads ''{\"message\":\"hi\"}'' = Some (JObject obj) \<longrightarrow>
      obj_get obj ''type'' \<noteq> Some (JString s)"
    using l g by simp
  show ?thesis
    using l g v reply_without_string_type_fails[OF h] by simp
qed

subsection \<open>The round trip\<close>

text \<open>
  C3. A reply written as JSON text and passed through \<^verbatim>\<open>model_validate_json\<close> is validated
  to the same reply: the same \<^verbatim>\<open>type\<close> and the same four optional fields. This holds for
  every reply, whatever bytes its strings hold.
\<close>

theorem reply_round_trip: "model_validate_json (Some (dumps_reply r)) = Inr r"
  by (simp add: model_validate_json_def json_loads_dumps_reply model_validate_reply_object)

theorem reply_round_trip_witness:
  "dumps_reply \<lparr>type = ''code'', message = None, code = Some ''<div/>'', changes = None,
      recommendations = None\<rparr> = ''{\"type\":\"code\",\"code\":\"<div/>\"}'' \<and>
   model_validate_json (Some ''{\"type\":\"code\",\"code\":\"<div/>\"}'') =
     Inr \<lparr>type = ''code'', message = None, code = Some ''<div/>'', changes = None,
           recommendations = None\<rparr> \<and>
   model_validate_json
     (Some (''{\"type\":\"code\",\"code\":\"<button class='' @ [CHR 0x5C] @ ''\"px-4 py-2'' @
            [CHR 0x5C] @ ''\">Click</button>\",\"changes\":\"Added padding\"}'')) =
     Inr \<lparr>type = ''code'', message = None,
           code = Some ''<button class=\"px-4 py-2\">Click</button>'',
           changes = Some ''Added padding'', recommendations = None\<rparr>"
proof -
  have d1: "dumps_reply \<lparr>type = ''code'', message = None, code = Some ''<div/>'',
      changes = None, recommendations = None\<rparr> = ''{\"type\":\"code\",\"code\":\"<div/>\"}''"
    by (simp add: dumps_reply_def dumps_member_def dumps_optional_def dumps_string_def
        escape_char_def)
  have d2: "dumps_reply \<lparr>type = ''code'', message = None,
      code = Some ''<button class=\"px-4 py-2\">Click</button>'',
      changes = Some ''Added padding'', recommendations = None\<rparr> =
    ''{\"type\":\"code\",\"code\":\"<button class='' @ [CHR 0x5C] @ ''\"px-4 py-2'' @
      [CHR 0x5C] @ ''\">Click</button>\",\"changes\":\"Added padding\"}''"
    by (simp add: dumps_reply_def dumps_member_def dumps_optional_def dumps_string_def
        escape_char_def)
  show ?thesis
    using reply_round_trip[of "\<lparr>type = ''code'', message = None, code = Some ''<div/>'',
        changes = None, recommendations = None\<rparr>"]
      reply_round_trip[of "\<lparr>type = ''code'', message = None,
        code = Some ''<button class=\"px-4 py-2\">Click</button>'',
        changes = Some ''Added padding'', recommendations = None\<rparr>"]
    unfolding d1 d2 by (simp add: d1)
qed

subsection \<open>The checks before the call\<close>

text \<open>
  C4, as the code has it. Neither \<^verbatim>\<open>transform_html\<close> nor the button's handler compares the
  format with a list: given the format \<^verbatim>\<open>svelte\<close> and a credential, each builds the request
  and calls the service.
\<close>

theorem unlisted_format_calls_service:
  "calls (fst (transform_html (constant_service ServiceRaises) (Some ''key'') ''svelte'' ''<p>'')) =
     [build_request ''key'' ''svelte'' ''<p>''] \<and>
   calls (fst (on_transform (constant_service ServiceRaises) (Some ''key'') ''<p>''
     (Some ''svelte''))) = [build_request ''key'' ''svelte'' ''<p>'']"
proof -
  have "lower ''svelte'' = ''svelte''"
    by code_simp
  then show ?thesis
    by (simp add: calls_transform_html calls_on_transform truthy_def)
qed

text \<open>
  C4, amended. The format reaches the handler from the pills widget, which returns
  \<^verbatim>\<open>None\<close> or one of the options \<^verbatim>\<open>HTML\<close>, \<^verbatim>\<open>React\<close>, \<^verbatim>\<open>Vue\<close>, \<^verbatim>\<open>Flutter\<close>. For every such
  value, a run of the script that calls the service has a selected format, and its
  lowercase form is one of \<^verbatim>\<open>html\<close>, \<^verbatim>\<open>react\<close>, \<^verbatim>\<open>vue\<close>, \<^verbatim>\<open>flutter\<close>; with no format
  selected the service is not called.
\<close>

theorem page_calls_service_only_for_offered_format:
  assumes "pills w \<in> set pills_values"
    and "calls (fst (script e w)) \<noteq> []"
  shows "\<exists>fmt. pills w = Some fmt \<and> lower fmt \<in> {''html'', ''react'', ''vue'', ''flutter''}"
proof (cases "pills w")
  case None
  then have "calls (fst (script e w)) = []"
    by (simp add: script_def calls_on_transform truthy_def)
  with assms(2) show ?thesis by simp
next
  case (Some fmt)
  with assms(1) have "fmt \<in> {''HTML'', ''React'', ''Vue'', ''Flutter''}"
    by (auto simp: pills_values_def output_lang_map_def)
  then have "lower fmt \<in> {''html'', ''react'', ''vue'', ''flutter''}"
    using lower_offered by auto
  with Some show ?thesis by simp
qed

theorem page_calls_service_only_for_offered_format_witness:
  "Some ''React'' \<in> set pills_values \<and>
   calls (fst (script (constant_service ServiceRaises)
     \<lparr>gemini_api_key = ''key'', input_text = ''<p>'', pills = Some ''React'', button = True\<rparr>)) \<noteq> [] \<and>
   (\<exists>fmt. Some ''React'' = Some fmt \<and> lower fmt \<in> {''html'', ''react'', ''vue'', ''flutter''})"
proof -
  let ?w = "\<lparr>gemini_api_key = ''key'', input_text = ''<p>'', pills = Some ''React'',
    button = True\<rparr>"
  have h1: "pills ?w \<in> set pills_values"
    by (simp add: pills_values_def output_lang_map_def)
  have h2: "calls (fst (script (constant_service ServiceRaises) ?w)) \<noteq> []"
    by (simp add: script_def sidebar_def calls_on_transform truthy_def)
  show ?thesis
    using h1 h2 page_calls_service_only_for_offered_format[OF h1 h2] by simp
qed

text \<open>
  C5. With an empty template the handler reports the missing input and does nothing else,
  whatever the format and the credential: no request is built, no client is constructed,
  the service is not called.
\<close>

theorem empty_template_short_circuits:
  assumes "button w" and "input_text w = []"
  shows "script e w = ([st_error ''Please enter some HTML code to transform.''], Returns ()) \<and>
         on_transform e session_key [] output_format =
           ([st_error ''Please enter some HTML code to transform.''], Returns ()) \<and>
         calls (fst (script e w)) = [] \<and> clients (fst (script e w)) = []"
  using assms by (simp add: script_def on_transform_def)

theorem empty_template_short_circuits_witness:
  "button \<lparr>gemini_api_key = ''key'', input_text = [], pills = Some ''HTML'', button = True\<rparr> \<and>
   script (constant_service (ServiceReturns (Some ''{\"type\":\"code\"}'')))
     \<lparr>gemini_api_key = ''key'', input_text = [], pills = Some ''HTML'', button = True\<rparr> =
     ([st_error ''Please enter some HTML code to transform.''], Returns ())"
  using empty_template_short_circuits[of
      "\<lparr>gemini_api_key = ''key'', input_text = [], pills = Some ''HTML'', button = True\<rparr>"
      "constant_service (ServiceReturns (Some ''{\"type\":\"code\"}''))"]
  by simp

subsection \<open>A reply that does not validate\<close>

text \<open>
  C6. When the text of the reply does not validate, \<^verbatim>\<open>transform_html\<close> catches the error:
  it returns \<^verbatim>\<open>None\<close> (it does not raise, and there is no reply object), having built one
  client, called the service once and reported the error. The handler then shows the
  generic failure notice and returns. Whatever the service answers, a call of
  \<^verbatim>\<open>transform_html\<close> with a credential calls the service exactly once.
\<close>

theorem validation_failure_is_recoverable:
  assumes "k \<noteq> []"
    and "service e (build_request k output_format template) = ServiceReturns text"
    and "model_validate_json text = Inl err"
  shows "transform_html e (Some k) output_format template =
           ([Client k, generate_content (build_request k output_format template),
             st_error (''Error in response schema validation: '' @ str_of_error e err)],
            Returns None) \<and>
         length (calls (fst (transform_html e' (Some k) output_format' template'))) = 1"
  using assms by (simp add: transform_html_invalid calls_transform_html)

theorem validation_failure_is_recoverable_witness:
  "''key'' \<noteq> [] \<and>
   model_validate_json (Some ''{\"type\":5}'') = Inl [(string_type, ''type'')] \<and>
   transform_html (constant_service (ServiceReturns (Some ''{\"type\":5}''))) (Some ''key'')
     ''html'' ''<p>'' =
     ([Client ''key'', generate_content (build_request ''key'' ''html'' ''<p>''),
       st_error ''Error in response schema validation: !''],
      Returns None) \<and>
   on_transform (constant_service (ServiceReturns (Some ''{\"type\":5}''))) (Some ''key'') ''<p>''
     (Some ''HTML'') =
     ([st_spinner ''Transforming...'', Client ''key'',
       generate_content (build_request ''key'' ''html'' ''<p>''),
       st_error ''Error in response schema validation: !'',
       st_error ''Failed to transform the HTML code.''],
      Returns ())"
proof -
  let ?e = "constant_service (ServiceReturns (Some ''{\"type\":5}''))"
  have h1: "''key'' \<noteq> []"
    by simp
  have h2: "service ?e (build_request ''key'' ''html'' ''<p>'') =
              ServiceReturns (Some ''{\"type\":5}'')"
    by (simp add: constant_service_def)
  have h3: "model_validate_json (Some ''{\"type\":5}'') = Inl [(string_type, ''type'')]"
    by code_simp
  have "str_of_error ?e [(string_type, ''type'')] = ''!''"
    by (simp add: constant_service_def)
  then show ?thesis
    using h3 validation_failure_is_recoverable[OF h1 h2 h3]
    by (simp add: on_transform_reaches lower_offered render_def)
qed

subsection \<open>The declared shape of the reply\<close>

text \<open>
  C7. Every request that \<^verbatim>\<open>transform_html\<close> sends carries the same response schema: an
  object whose only required property is \<^verbatim>\<open>type\<close>, a string with the enum \<^verbatim>\<open>code\<close>,
  \<^verbatim>\<open>text\<close>, and with four more properties \<^verbatim>\<open>message\<close>, \<^verbatim>\<open>code\<close>, \<^verbatim>\<open>changes\<close> and
  \<^verbatim>\<open>recommendations\<close>, each a string without further constraint. The response MIME type is
  \<^verbatim>\<open>application/json\<close>.
\<close>

theorem response_schema_of_every_call:
  assumes "c \<in> set (calls (fst (transform_html e session_key output_format template)))"
  shows "response_schema (config c) =
           Schema OBJECT (Some [''type'']) None
             (Some [(''type'', Schema STRING None (Some [''code'', ''text'']) None),
                    (''message'', Schema STRING None None None),
                    (''code'', Schema STRING None None None),
                    (''changes'', Schema STRING None None None),
                    (''recommendations'', Schema STRING None None None)]) \<and>
         response_mime_type (config c) = ''application/json''"
proof -
  from assms obtain k where "c = build_request k output_format template"
    by (auto simp: calls_transform_html_cases split: option.splits if_splits)
  then show ?thesis
    by (simp add: build_request_def generate_content_config_def response_schema_decl_def)
qed

theorem response_schema_of_every_call_witness:
  "build_request ''key'' ''vue'' ''<p>'' \<in>
     set (calls (fst (transform_html (constant_service ServiceRaises) (Some ''key'') ''vue'' ''<p>''))) \<and>
   schema_required (response_schema (config (build_request ''key'' ''vue'' ''<p>''))) =
     Some [''type''] \<and>
   map_option (map fst)
     (schema_properties (response_schema (config (build_request ''key'' ''vue'' ''<p>'')))) =
     Some [''type'', ''message'', ''code'', ''changes'', ''recommendations'']"
proof -
  have h: "build_request ''key'' ''vue'' ''<p>'' \<in>
     set (calls (fst (transform_html (constant_service ServiceRaises) (Some ''key'') ''vue'' ''<p>'')))"
    by (simp add: calls_transform_html)
  show ?thesis
    using h response_schema_of_every_call[OF h] by simp
qed

subsection \<open>Rendering\<close>




subsection \<open>Two ways to \<^verbatim>\<open>None\<close>\<close>

text \<open>
  C9, as the code has it. The two ways to \<^verbatim>\<open>None\<close> do not show the same notice in a run of
  the script. With no key typed, the sidebar stores \<^verbatim>\<open>None\<close> and the handler stops at its own
  test of the key: the run shows the key notice alone, \<^verbatim>\<open>transform_html\<close> is not called, and
  the generic failure notice does not appear. With a key and a reply that does not validate,
  the run ends with the generic failure notice.
\<close>

theorem run_without_credential_shows_key_notice_only:
  "script (constant_service (ServiceReturns (Some ''[]'')))
     \<lparr>gemini_api_key = [], input_text = ''<p>'', pills = Some ''HTML'', button = True\<rparr> =
     ([st_error ''Please enter your Gemini API key in the sidebar.''], Returns ()) \<and>
   st_error ''Failed to transform the HTML code.'' \<notin>
     set (fst (script (constant_service (ServiceReturns (Some ''[]'')))
       \<lparr>gemini_api_key = [], input_text = ''<p>'', pills = Some ''HTML'', button = True\<rparr>)) \<and>
   script (constant_service (ServiceReturns (Some ''[]'')))
     \<lparr>gemini_api_key = ''key'', input_text = ''<p>'', pills = Some ''HTML'', button = True\<rparr> =
     ([st_spinner ''Transforming...'', Client ''key'',
       generate_content (build_request ''key'' ''html'' ''<p>''),
       st_error ''Error in response schema validation: !'',
       st_error ''Failed to transform the HTML code.''], Returns ())"
proof -
  let ?e = "constant_service (ServiceReturns (Some ''[]''))"
  have 1: "script ?e
     \<lparr>gemini_api_key = [], input_text = ''<p>'', pills = Some ''HTML'', button = True\<rparr> =
     ([st_error ''Please enter your Gemini API key in the sidebar.''], Returns ())"
    by (simp add: script_def sidebar_def on_transform_def)
  have v: "model_validate_json (Some ''[]'') = Inl [(model_type, [])]"
    by code_simp
  have "service ?e (build_request ''key'' ''html'' ''<p>'') = ServiceReturns (Some ''[]'')"
    and "str_of_error ?e [(model_type, [])] = ''!''"
    by (simp_all add: constant_service_def)
  then have "transform_html ?e (Some ''key'') ''html'' ''<p>'' =
     ([Client ''key'', generate_content (build_request ''key'' ''html'' ''<p>''),
       st_error ''Error in response schema validation: !''], Returns None)"
    using v transform_html_invalid[of "''key''" ?e "''html''" "''<p>''" "Some ''[]''"
        "[(model_type, [])]"]
    by simp
  then have 2: "script ?e
     \<lparr>gemini_api_key = ''key'', input_text = ''<p>'', pills = Some ''HTML'', button = True\<rparr> =
     ([st_spinner ''Transforming...'', Client ''key'',
       generate_content (build_request ''key'' ''html'' ''<p>''),
       st_error ''Error in response schema validation: !'',
       st_error ''Failed to transform the HTML code.''], Returns ())"
    by (simp add: script_def sidebar_def on_transform_reaches lower_offered render_def)
  show ?thesis
    unfolding 1 2 by simp
qed

text \<open>
  C9, amended. Without a credential in the session (\<^verbatim>\<open>None\<close> or the empty string),
  \<^verbatim>\<open>transform_html\<close> reports the missing key and returns \<^verbatim>\<open>None\<close>; no client is built and
  the service is not called. A reply that does not validate makes it return \<^verbatim>\<open>None\<close> as well,
  and for \<^verbatim>\<open>None\<close> the handler has the one generic notice. In a run of the script, though,
  only the second path reaches that notice: a run with no key typed never calls the service
  and never shows the generic notice, and a run whose reply does not validate ends with it.
\<close>

theorem missing_credential_returns_none:
  assumes "\<not> truthy session_key"
    and "button w" and "gemini_api_key w = []"
    and "button w'" and "gemini_api_key w' = k" and "k \<noteq> []"
    and "input_text w' \<noteq> []" and "pills w' = Some fmt" and "fmt \<noteq> []"
    and "service e (build_request k (lower fmt) (input_text w')) = ServiceReturns text"
    and "model_validate_json text = Inl err"
  shows "transform_html e session_key output_format template =
           ([st_error ''Please enter your Gemini API key in the sidebar.''], Returns None) \<and>
         clients (fst (transform_html e session_key output_format template)) = [] \<and>
         calls (fst (transform_html e session_key output_format template)) = [] \<and>
         snd (transform_html e (Some k) (lower fmt) (input_text w')) = Returns None \<and>
         render fmt None = [st_error ''Failed to transform the HTML code.''] \<and>
         calls (fst (script e w)) = [] \<and> clients (fst (script e w)) = [] \<and>
         st_error ''Failed to transform the HTML code.'' \<notin> set (fst (script e w)) \<and>
         script e w' =
           ([st_spinner ''Transforming...'', Client k,
             generate_content (build_request k (lower fmt) (input_text w')),
             st_error (''Error in response schema validation: '' @ str_of_error e err),
             st_error ''Failed to transform the HTML code.''], Returns ())"
proof -
  have a: "transform_html e session_key output_format template =
      ([st_error ''Please enter your Gemini API key in the sidebar.''], Returns None)"
    using assms(1) by (rule transform_html_no_key)
  have b: "transform_html e (Some k) (lower fmt) (input_text w') =
      ([Client k, generate_content (build_request k (lower fmt) (input_text w')),
        st_error (''Error in response schema validation: '' @ str_of_error e err)],
       Returns None)"
    using assms(6,10,11) by (rule transform_html_invalid)
  have c: "fst (script e w) \<in>
      {[st_error ''Please enter some HTML code to transform.''],
       [st_error ''Please select an output format.''],
       [st_error ''Please enter your Gemini API key in the sidebar.'']}"
    using assms(2,3) by (simp add: script_def sidebar_def on_transform_def split: option.splits)
  have d: "script e w' =
      ([st_spinner ''Transforming...'', Client k,
        generate_content (build_request k (lower fmt) (input_text w')),
        st_error (''Error in response schema validation: '' @ str_of_error e err),
        st_error ''Failed to transform the HTML code.''], Returns ())"
    using assms(4-9) b by (simp add: script_def sidebar_def on_transform_reaches render_def)
  have c1: "calls (fst (script e w)) = []" and c2: "clients (fst (script e w)) = []"
    and c3: "st_error ''Failed to transform the HTML code.'' \<notin> set (fst (script e w))"
    using c by auto
  show ?thesis
    using a b c1 c2 c3 d by (simp add: render_def)
qed

theorem missing_credential_returns_none_witness:
  "\<not> truthy None \<and>
   model_validate_json (Some ''[]'') = Inl [(model_type, [])] \<and>
   transform_html (constant_service (ServiceReturns (Some ''[]''))) None ''html'' ''<p>'' =
     ([st_error ''Please enter your Gemini API key in the sidebar.''], Returns None) \<and>
   snd (transform_html (constant_service (ServiceReturns (Some ''[]''))) (Some ''key'') ''html''
     ''<p>'') = Returns None \<and>
   calls (fst (script (constant_service (ServiceReturns (Some ''[]'')))
     \<lparr>gemini_api_key = [], input_text = ''<p>'', pills = Some ''HTML'', button = True\<rparr>)) = [] \<and>
   script (constant_service (ServiceReturns (Some ''[]'')))
     \<lparr>gemini_api_key = ''key'', input_text = ''<p>'', pills = Some ''HTML'', button = True\<rparr> =
     ([st_spinner ''Transforming...'', Client ''key'',
       generate_content (build_request ''key'' ''html'' ''<p>''),
       st_error ''Error in response schema validation: !'',
       st_error ''Failed to transform the HTML code.''], Returns ())"
proof -
  let ?e = "constant_service (ServiceReturns (Some ''[]''))"
  let ?w = "\<lparr>gemini_api_key = [], input_text = ''<p>'', pills = Some ''HTML'', button = True\<rparr>"
  let ?w' = "\<lparr>gemini_api_key = ''key'', input_text = ''<p>'', pills = Some ''HTML'',
    button = True\<rparr>"
  have h1: "\<not> truthy None"
    by (simp add: truthy_def)
  have h2: "button ?w" and h3: "gemini_api_key ?w = []"
    and h4: "button ?w'" and h5: "gemini_api_key ?w' = ''key''" and h6: "''key'' \<noteq> []"
    and h7: "input_text ?w' \<noteq> []" and h8: "pills ?w' = Some ''HTML''" and h9: "''HTML'' \<noteq> []"
    by simp_all
  have h10: "service ?e (build_request ''key'' (lower ''HTML'') (input_text ?w')) =
      ServiceReturns (Some ''[]'')"
    by (simp add: constant_service_def)
  have h11: "model_validate_json (Some ''[]'') = Inl [(model_type, [])]"
    by code_simp
  have "str_of_error ?e [(model_type, [])] = ''!''"
    by (simp add: constant_service_def)
  then show ?thesis
    using h1 h11
      missing_credential_returns_none[OF h1 h2 h3 h4 h5 h6 h7 h8 h9 h10 h11,
        of "''html''" "''<p>''"]
    by (simp add: lower_offered)
qed

subsection \<open>The dispatch on the discriminator\<close>

text \<open>
  C10. The handler compares \<^verbatim>\<open>type\<close> with \<^verbatim>\<open>code\<close> and nothing else: a reply is shown with
  \<^verbatim>\<open>st.text(message)\<close> exactly when its \<^verbatim>\<open>type\<close> is not \<^verbatim>\<open>code\<close>, whatever string that is and
  whether or not it has a message.
\<close>

theorem dispatch_on_code_only:
  "render fmt (Some r) = [st_text (message r)] \<longleftrightarrow> type r \<noteq> ''code''"
  by (simp add: render_def)

theorem dispatch_on_code_only_witness:
  "type \<lparr>type = ''image'', message = None, code = Some ''<p>'', changes = None,
      recommendations = None\<rparr> \<noteq> ''code'' \<and>
   render ''HTML'' (Some \<lparr>type = ''image'', message = None, code = Some ''<p>'', changes = None,
      recommendations = None\<rparr>) = [st_text None] \<and>
   on_transform (constant_service (ServiceReturns (Some ''{\"type\":\"image\"}''))) (Some ''key'')
     ''<p>'' (Some ''HTML'') =
     ([st_spinner ''Transforming...'', Client ''key'',
       generate_content (build_request ''key'' ''html'' ''<p>''), st_text None], Returns ())"
proof -
  let ?r = "\<lparr>type = ''image'', message = None, code = Some ''<p>'', changes = None,
      recommendations = None\<rparr>"
  let ?r' = "\<lparr>type = ''image'', message = None, code = None, changes = None,
      recommendations = None\<rparr>"
  let ?e = "constant_service (ServiceReturns (Some ''{\"type\":\"image\"}''))"
  have v: "model_validate_json (Some ''{\"type\":\"image\"}'') = Inr ?r'"
    by code_simp
  have "service ?e (build_request ''key'' ''html'' ''<p>'') =
          ServiceReturns (Some ''{\"type\":\"image\"}'')"
    by (simp add: constant_service_def)
  then have t: "transform_html ?e (Some ''key'') ''html'' ''<p>'' =
      ([Client ''key'', generate_content (build_request ''key'' ''html'' ''<p>'')],
       Returns (Some ?r'))"
    using v by (simp add: transform_html_valid)
  show ?thesis
    using dispatch_on_code_only[of "''HTML''" ?r] dispatch_on_code_only[of "''HTML''" ?r'] t
    by (simp add: on_transform_reaches lower_offered)
qed

subsection \<open>Further properties\<close>

text \<open>
  The handler lowercases the selected format before the call and \<^verbatim>\<open>transform_html\<close> lowercases
  it again; the message of a run of the script is still the one of C1.
\<close>

theorem page_user_message:
  assumes "button w" and "gemini_api_key w \<noteq> []" and "input_text w \<noteq> []"
    and "pills w = Some fmt" and "fmt \<noteq> []"
  shows "map contents (calls (fst (script e w))) =
         [[\<lparr>role = ''user'',
            parts = [''FORMAT: '' @ lower fmt @ [CHR 0x0A] @ ''TEMPLATE: '' @ input_text w]\<rparr>]]"
  using assms
  by (simp add: script_def sidebar_def calls_on_transform truthy_def build_request_def
      request_contents_def user_message_def lower_idem)

theorem page_user_message_witness:
  "map contents (calls (fst (script (constant_service ServiceRaises)
     \<lparr>gemini_api_key = ''key'', input_text = ''<b>Hi</b>'', pills = Some ''Flutter'',
      button = True\<rparr>))) =
   [[\<lparr>role = ''user'', parts = [''FORMAT: flutter\<newline>TEMPLATE: <b>Hi</b>'']\<rparr>]]"
  using page_user_message[of
      "\<lparr>gemini_api_key = ''key'', input_text = ''<b>Hi</b>'', pills = Some ''Flutter'',
        button = True\<rparr>" "''Flutter''" "constant_service ServiceRaises"]
  by (simp add: lower_offered)

text \<open>
  An exception of the service is not caught: it leaves \<^verbatim>\<open>transform_html\<close> and the handler,
  after the client was built and the call was made, and nothing is rendered.
\<close>

theorem service_exception_propagates:
  assumes "k \<noteq> []" and "html_to_transform \<noteq> []" and "fmt \<noteq> []"
    and "service e (build_request k (lower fmt) html_to_transform) = ServiceRaises"
  shows "on_transform e (Some k) html_to_transform (Some fmt) =
           ([st_spinner ''Transforming...'', Client k,
             generate_content (build_request k (lower fmt) html_to_transform)], Raises)"
  using assms by (simp add: on_transform_reaches transform_html_raises)

theorem service_exception_propagates_witness:
  "on_transform (constant_service ServiceRaises) (Some ''key'') ''<p>'' (Some ''Vue'') =
     ([st_spinner ''Transforming...'', Client ''key'',
       generate_content (build_request ''key'' ''vue'' ''<p>'')], Raises)"
proof -
  have h: "service (constant_service ServiceRaises)
      (build_request ''key'' (lower ''Vue'') ''<p>'') = ServiceRaises"
    by (simp add: constant_service_def)
  show ?thesis
    using service_exception_propagates[OF _ _ _ h] by (simp add: lower_offered)
qed

end
